theory Spec2Isabelle
  imports Complex_Main
begin

section \<open>Expression trees of \<^verbatim>\<open>src/main.cpp\<close>\<close>

text \<open>
  The program builds expression trees out of reference-counted nodes
  (\<^verbatim>\<open>using ExpressionPtr = std::shared_ptr<Expression>\<close>) and offers three virtual
  methods on them: \<^verbatim>\<open>eval\<close>, \<^verbatim>\<open>deriv\<close> and \<^verbatim>\<open>to_string\<close>.

  The scalar type \<^verbatim>\<open>double\<close> is the type parameter \<open>'d\<close>; its arithmetic
  (\<^verbatim>\<open>-x\<close>, \<^verbatim>\<open>exp\<close>, \<^verbatim>\<open>log\<close>, \<^verbatim>\<open>sin\<close>, \<^verbatim>\<open>cos\<close>, \<^verbatim>\<open>std::plus\<close> ...) and its formatting
  (\<^verbatim>\<open>std::to_string\<close>) belong to the C++ library, not to this program, and are
  parameters of the functions that use them.

  The first part takes a tree as the value it unfolds to; the second part puts the
  nodes into a store, where the sharing of subtrees and the allocation of new nodes
  show, and relates the two.

  An \<^verbatim>\<open>ExpressionPtr\<close> may be null, so a pointer is an \<open>option\<close>: \<open>None\<close> is the null
  pointer. Calling a method through a null pointer is undefined behaviour; the model
  makes it the outcome \<open>null_dereference\<close>. A C++ exception is the outcome
  \<open>runtime_error\<close> with the text passed to \<^verbatim>\<open>std::runtime_error\<close>.
\<close>

subsection \<open>Data model\<close>

text \<open>The functors of \<^verbatim>\<open>namespace Fncs\<close>: the template argument of \<^verbatim>\<open>UnaryOperation\<close>.\<close>

datatype Fncs = Fncs_Neg | Fncs_Exp | Fncs_Log | Fncs_Sin | Fncs_Cos

text \<open>The functors of \<^verbatim>\<open><functional>\<close>: the template argument of \<^verbatim>\<open>BinaryOperation\<close>.\<close>

datatype std_functional = std_plus | std_minus | std_multiplies | std_divides

text \<open>
  \<^verbatim>\<open>struct Numeric\<close> (field \<^verbatim>\<open>value\<close>), \<^verbatim>\<open>struct Variable\<close> (field \<^verbatim>\<open>variable\<close>),
  \<^verbatim>\<open>UnaryOperation<Fnc>\<close> (field \<^verbatim>\<open>operand\<close>) and \<^verbatim>\<open>BinaryOperation<Fnc>\<close> (field
  \<^verbatim>\<open>operands\<close>, given here as \<^verbatim>\<open>operands.first\<close> and \<^verbatim>\<open>operands.second\<close>).
\<close>

datatype 'd Expression =
    Numeric 'd
  | Variable string
  | UnaryOperation Fncs "'d Expression option"
  | BinaryOperation std_functional "'d Expression option" "'d Expression option"

type_synonym 'd ExpressionPtr = "'d Expression option"

text \<open>The aliases \<^verbatim>\<open>using Neg = UnaryOperation<Fncs::Neg<double>>\<close> and so on.\<close>

abbreviation Neg :: "'d ExpressionPtr \<Rightarrow> 'd Expression" where
  "Neg \<equiv> UnaryOperation Fncs_Neg"
abbreviation Exp :: "'d ExpressionPtr \<Rightarrow> 'd Expression" where
  "Exp \<equiv> UnaryOperation Fncs_Exp"
abbreviation Log :: "'d ExpressionPtr \<Rightarrow> 'd Expression" where
  "Log \<equiv> UnaryOperation Fncs_Log"
abbreviation Sin :: "'d ExpressionPtr \<Rightarrow> 'd Expression" where
  "Sin \<equiv> UnaryOperation Fncs_Sin"
abbreviation Cos :: "'d ExpressionPtr \<Rightarrow> 'd Expression" where
  "Cos \<equiv> UnaryOperation Fncs_Cos"
abbreviation Sum :: "'d ExpressionPtr \<Rightarrow> 'd ExpressionPtr \<Rightarrow> 'd Expression" where
  "Sum \<equiv> BinaryOperation std_plus"
abbreviation Difference :: "'d ExpressionPtr \<Rightarrow> 'd ExpressionPtr \<Rightarrow> 'd Expression" where
  "Difference \<equiv> BinaryOperation std_minus"
abbreviation Product :: "'d ExpressionPtr \<Rightarrow> 'd ExpressionPtr \<Rightarrow> 'd Expression" where
  "Product \<equiv> BinaryOperation std_multiplies"
abbreviation Division :: "'d ExpressionPtr \<Rightarrow> 'd ExpressionPtr \<Rightarrow> 'd Expression" where
  "Division \<equiv> BinaryOperation std_divides"

text \<open>
  What a call can do besides returning: throw a \<^verbatim>\<open>std::runtime_error\<close>, or call a method
  through a pointer that is null or, in the store of the second part, points nowhere.
\<close>

datatype error =
    runtime_error string
  | null_dereference
  | dangling_dereference

subsection \<open>Construction functions\<close>

text \<open>
  Each factory is one \<^verbatim>\<open>std::make_shared\<close>: it wraps the pointers it is given and
  checks nothing, so a null operand is stored as it is.
\<close>

definition numeric :: "'d \<Rightarrow> 'd ExpressionPtr" where
  "numeric x = Some (Numeric x)"

definition variable :: "string \<Rightarrow> 'd ExpressionPtr" where
  "variable s = Some (Variable s)"

definition neg :: "'d ExpressionPtr \<Rightarrow> 'd ExpressionPtr" where
  "neg x = Some (Neg x)"
definition exp_e :: "'d ExpressionPtr \<Rightarrow> 'd ExpressionPtr" where
  "exp_e x = Some (Exp x)"
definition log_e :: "'d ExpressionPtr \<Rightarrow> 'd ExpressionPtr" where
  "log_e x = Some (Log x)"
definition sin_e :: "'d ExpressionPtr \<Rightarrow> 'd ExpressionPtr" where
  "sin_e x = Some (Sin x)"
definition cos_e :: "'d ExpressionPtr \<Rightarrow> 'd ExpressionPtr" where
  "cos_e x = Some (Cos x)"

definition sum_e :: "'d ExpressionPtr \<Rightarrow> 'd ExpressionPtr \<Rightarrow> 'd ExpressionPtr" where
  "sum_e a b = Some (Sum a b)"
definition difference :: "'d ExpressionPtr \<Rightarrow> 'd ExpressionPtr \<Rightarrow> 'd ExpressionPtr" where
  "difference a b = Some (Difference a b)"
definition product :: "'d ExpressionPtr \<Rightarrow> 'd ExpressionPtr \<Rightarrow> 'd ExpressionPtr" where
  "product a b = Some (Product a b)"
definition division :: "'d ExpressionPtr \<Rightarrow> 'd ExpressionPtr \<Rightarrow> 'd ExpressionPtr" where
  "division a b = Some (Division a b)"

subsection \<open>\<^verbatim>\<open>eval\<close>\<close>

text \<open>
  \<open>un f\<close> is \<^verbatim>\<open>Fnc()(x)\<close> for a functor of \<^verbatim>\<open>Fncs\<close> and \<open>bin f\<close> is \<^verbatim>\<open>Fnc()(x, y)\<close> for a
  functor of \<^verbatim>\<open><functional>\<close>, both on doubles.

  \<^verbatim>\<open>BinaryOperation::eval\<close> evaluates both operands as arguments of one call, and C++
  leaves their order open; \<open>right_first\<close> chooses it. The outcome differs between the
  two orders only when both operands fail, in different ways.
\<close>

fun eval :: "bool \<Rightarrow> (Fncs \<Rightarrow> 'd \<Rightarrow> 'd) \<Rightarrow> (std_functional \<Rightarrow> 'd \<Rightarrow> 'd \<Rightarrow> 'd)
      \<Rightarrow> 'd Expression \<Rightarrow> error + 'd"
  and eval_ptr :: "bool \<Rightarrow> (Fncs \<Rightarrow> 'd \<Rightarrow> 'd) \<Rightarrow> (std_functional \<Rightarrow> 'd \<Rightarrow> 'd \<Rightarrow> 'd)
      \<Rightarrow> 'd ExpressionPtr \<Rightarrow> error + 'd"
where
  "eval right_first un bin (Numeric v) = Inr v"
| "eval right_first un bin (Variable v) =
     Inl (runtime_error ''Error trying to evaluate a variable.'')"
| "eval right_first un bin (UnaryOperation f operand) =
     (case eval_ptr right_first un bin operand of
        Inl e \<Rightarrow> Inl e
      | Inr x \<Rightarrow> Inr (un f x))"
| "eval right_first un bin (BinaryOperation f fst_op snd_op) =
     (if right_first then
        (case eval_ptr right_first un bin snd_op of
           Inl e \<Rightarrow> Inl e
         | Inr y \<Rightarrow>
             (case eval_ptr right_first un bin fst_op of
                Inl e \<Rightarrow> Inl e
              | Inr x \<Rightarrow> Inr (bin f x y)))
      else
        (case eval_ptr right_first un bin fst_op of
           Inl e \<Rightarrow> Inl e
         | Inr x \<Rightarrow>
             (case eval_ptr right_first un bin snd_op of
                Inl e \<Rightarrow> Inl e
              | Inr y \<Rightarrow> Inr (bin f x y))))"
| "eval_ptr right_first un bin None = Inl null_dereference"
| "eval_ptr right_first un bin (Some e) = eval right_first un bin e"

subsection \<open>\<^verbatim>\<open>deriv\<close>\<close>

text \<open>
  \<^verbatim>\<open>Numeric::deriv\<close> is \<^verbatim>\<open>return 0;\<close> with return type \<^verbatim>\<open>ExpressionPtr\<close>: the literal
  \<^verbatim>\<open>0\<close> is a null pointer constant and converts to the null \<^verbatim>\<open>shared_ptr\<close>.
  \<^verbatim>\<open>Variable::deriv\<close> calls \<^verbatim>\<open>numeric(1)\<close> and \<^verbatim>\<open>numeric(0)\<close>, the doubles one and zero.
  \<^verbatim>\<open>BinaryOperation::deriv\<close> throws before it reads anything.
\<close>

fun deriv :: "('d::{zero,one}) Expression \<Rightarrow> string \<Rightarrow> error + 'd ExpressionPtr"
  and deriv_ptr :: "('d::{zero,one}) ExpressionPtr \<Rightarrow> string \<Rightarrow> error + 'd ExpressionPtr"
where
  "deriv (Numeric v) s = Inr None"
| "deriv (Variable v) s = (if s = v then Inr (numeric 1) else Inr (numeric 0))"
| "deriv (UnaryOperation f operand) s =
     (case deriv_ptr operand s of
        Inl e \<Rightarrow> Inl e
      | Inr d \<Rightarrow>
          (case f of
             Fncs_Neg \<Rightarrow> Inr (neg d)
           | Fncs_Exp \<Rightarrow> Inr (sum_e (exp_e operand) d)
           | Fncs_Log \<Rightarrow> Inr (division d operand)
           | Fncs_Sin \<Rightarrow> Inr (product d (cos_e operand))
           | Fncs_Cos \<Rightarrow> Inr (product d (neg (sin_e operand)))))"
| "deriv (BinaryOperation f fst_op snd_op) s = Inl (runtime_error ''bar'')"
| "deriv_ptr None s = Inl null_dereference"
| "deriv_ptr (Some e) s = deriv e s"

subsection \<open>\<^verbatim>\<open>to_string\<close>\<close>

text \<open>
  \<open>fmt\<close> is \<^verbatim>\<open>std::to_string\<close> on doubles. The operands of a \<^verbatim>\<open>BinaryOperation\<close> are
  printed inside one chain of \<^verbatim>\<open>+\<close> on strings; neither can throw, so the order in
  which they are printed does not show in the outcome.
\<close>

fun to_string :: "('d \<Rightarrow> string) \<Rightarrow> 'd Expression \<Rightarrow> error + string"
  and to_string_ptr :: "('d \<Rightarrow> string) \<Rightarrow> 'd ExpressionPtr \<Rightarrow> error + string"
where
  "to_string fmt (Numeric v) = Inr (fmt v)"
| "to_string fmt (Variable v) = Inr v"
| "to_string fmt (UnaryOperation f operand) =
     (case to_string_ptr fmt operand of
        Inl e \<Rightarrow> Inl e
      | Inr x \<Rightarrow>
          (case f of
             Fncs_Neg \<Rightarrow> Inr (''-'' @ x)
           | Fncs_Exp \<Rightarrow> Inr (''exp('' @ x @ '')'')
           | Fncs_Log \<Rightarrow> Inr (''log('' @ x @ '')'')
           | Fncs_Sin \<Rightarrow> Inr (''sin('' @ x @ '')'')
           | Fncs_Cos \<Rightarrow> Inr (''cos('' @ x @ '')'')))"
| "to_string fmt (BinaryOperation f fst_op snd_op) =
     (case to_string_ptr fmt fst_op of
        Inl e \<Rightarrow> Inl e
      | Inr x \<Rightarrow>
          (case to_string_ptr fmt snd_op of
             Inl e \<Rightarrow> Inl e
           | Inr y \<Rightarrow>
               (case f of
                  std_plus \<Rightarrow> Inr (''('' @ x @ '' + '' @ y @ '')'')
                | std_minus \<Rightarrow> Inr (''('' @ x @ '' - '' @ y @ '')'')
                | std_multiplies \<Rightarrow> Inr (''('' @ x @ '' * '' @ y @ '')'')
                | std_divides \<Rightarrow> Inr (''('' @ x @ '' / '' @ y @ '')''))))"
| "to_string_ptr fmt None = Inl null_dereference"
| "to_string_ptr fmt (Some e) = to_string fmt e"

subsection \<open>Trees the specification talks about\<close>

text \<open>
  A unary-only tree: the operators \<open>fs\<close>, outermost first, applied to \<open>leaf\<close>, each
  through its factory. \<open>unary_tree [Fncs_Sin, Fncs_Neg] (numeric c)\<close> is
  \<^verbatim>\<open>sin(neg(numeric(c)))\<close>; its nesting depth is \<open>length fs\<close>.
\<close>

fun unary_tree :: "Fncs list \<Rightarrow> 'd ExpressionPtr \<Rightarrow> 'd ExpressionPtr" where
  "unary_tree [] leaf = leaf"
| "unary_tree (f # fs) leaf = Some (UnaryOperation f (unary_tree fs leaf))"

text \<open>A tree is well formed when no pointer in it is null.\<close>

fun well_formed :: "'d Expression \<Rightarrow> bool"
  and well_formed_ptr :: "'d ExpressionPtr \<Rightarrow> bool"
where
  "well_formed (Numeric v) = True"
| "well_formed (Variable v) = True"
| "well_formed (UnaryOperation f operand) = well_formed_ptr operand"
| "well_formed (BinaryOperation f fst_op snd_op) =
     (well_formed_ptr fst_op \<and> well_formed_ptr snd_op)"
| "well_formed_ptr None = False"
| "well_formed_ptr (Some e) = well_formed e"

subsection \<open>\<^verbatim>\<open>std::to_string(double)\<close> on finite values\<close>

text \<open>
  The C++ library defines \<^verbatim>\<open>std::to_string(double)\<close> as \<^verbatim>\<open>sprintf\<close> with \<^verbatim>\<open>"%f"\<close>: sign,
  integer part, a point and six decimals, the value rounded to the sixth decimal (to
  nearest, ties to even). A finite double is a real number, and this is the function on
  those; infinities, NaN and the negative zero are outside it. It is used for the one
  concrete string the specification quotes.
\<close>

definition digit_char :: "nat \<Rightarrow> char" where
  "digit_char n = ''0123456789'' ! n"

fun decimal :: "nat \<Rightarrow> string" where
  "decimal n =
     (if n < 10 then [digit_char n] else decimal (n div 10) @ [digit_char (n mod 10)])"

declare decimal.simps [simp del]

definition six_digits :: "nat \<Rightarrow> string" where
  "six_digits m =
     [digit_char (m div 100000 mod 10), digit_char (m div 10000 mod 10),
      digit_char (m div 1000 mod 10), digit_char (m div 100 mod 10),
      digit_char (m div 10 mod 10), digit_char (m mod 10)]"

definition round_half_even :: "real \<Rightarrow> int" where
  "round_half_even x =
     (let n = \<lfloor>x\<rfloor>; r = x - of_int n in
      if r < 1/2 then n else if 1/2 < r then n + 1 else if even n then n else n + 1)"

definition std_to_string :: "real \<Rightarrow> string" where
  "std_to_string x =
     (let n = nat (round_half_even (\<bar>x\<bar> * 1000000))
      in (if x < 0 then ''-'' else '''') @ decimal (n div 1000000) @ ''.''
           @ six_digits (n mod 1000000))"

subsection \<open>\<^verbatim>\<open>std::divides<double>\<close>\<close>

text \<open>
  \<^verbatim>\<open>std::divides<double>\<close> is the division of IEEE 754 doubles. A double is a finite
  number (zero comes with a negative zero beside it), an infinity or NaN. The special
  cases of the division are those of the standard: NaN operands, infinity by
  infinity and zero by zero give NaN, a non-zero number by zero gives the infinity with
  the sign of the quotient, and nothing traps. The quotient of two finite non-zero
  numbers is the real quotient rounded to a double; that rounding (to nearest, with
  overflow to an infinity and underflow to a zero) is the parameter \<open>rnd\<close>.
\<close>

datatype double = Finite real | NegativeZero | PlusInfinity | MinusInfinity | NaN

fun sign_bit :: "double \<Rightarrow> bool" where
  "sign_bit (Finite x) = (x < 0)"
| "sign_bit NegativeZero = True"
| "sign_bit PlusInfinity = False"
| "sign_bit MinusInfinity = True"
| "sign_bit NaN = False"

fun is_zero :: "double \<Rightarrow> bool" where
  "is_zero (Finite x) = (x = 0)"
| "is_zero NegativeZero = True"
| "is_zero PlusInfinity = False"
| "is_zero MinusInfinity = False"
| "is_zero NaN = False"

fun is_infinite :: "double \<Rightarrow> bool" where
  "is_infinite (Finite x) = False"
| "is_infinite NegativeZero = False"
| "is_infinite PlusInfinity = True"
| "is_infinite MinusInfinity = True"
| "is_infinite NaN = False"

fun real_of_double :: "double \<Rightarrow> real" where
  "real_of_double (Finite x) = x"
| "real_of_double NegativeZero = 0"
| "real_of_double PlusInfinity = 0"
| "real_of_double MinusInfinity = 0"
| "real_of_double NaN = 0"

definition signed_infinity :: "bool \<Rightarrow> double" where
  "signed_infinity negative = (if negative then MinusInfinity else PlusInfinity)"

definition signed_zero :: "bool \<Rightarrow> double" where
  "signed_zero negative = (if negative then NegativeZero else Finite 0)"

definition ieee_divides :: "(real \<Rightarrow> double) \<Rightarrow> double \<Rightarrow> double \<Rightarrow> double" where
  "ieee_divides rnd x y =
     (if x = NaN \<or> y = NaN then NaN
      else if is_infinite x then
        (if is_infinite y then NaN else signed_infinity (sign_bit x \<noteq> sign_bit y))
      else if is_infinite y then signed_zero (sign_bit x \<noteq> sign_bit y)
      else if is_zero y then
        (if is_zero x then NaN else signed_infinity (sign_bit x \<noteq> sign_bit y))
      else if is_zero x then signed_zero (sign_bit x \<noteq> sign_bit y)
      else rnd (real_of_double x / real_of_double y))"

section \<open>The same program on an explicit store\<close>

text \<open>
  The trees above forget that nodes are shared: \<^verbatim>\<open>exp(operand)\<close> inside \<^verbatim>\<open>Exp::deriv\<close>
  points at the very node \<^verbatim>\<open>operand\<close>, it does not copy it. To speak about what the
  methods do to existing nodes, the nodes live in a store. An address is an index into
  the list of objects allocated so far, a \<^verbatim>\<open>shared_ptr\<close> is an address or null, and
  \<^verbatim>\<open>std::make_shared\<close> appends one object and returns its address.

  Every method takes the store and gives back the store it leaves behind, together
  with its outcome, whether it returns or throws; what a call does to the nodes that
  existed is then a statement about these two stores.

  A \<^verbatim>\<open>shared_ptr\<close> cannot dangle; an address outside the store is given the outcome
  \<open>dangling_dereference\<close>. The recursion follows pointers, so on a store with a cycle it
  need not end: the functions are partial, \<open>None\<close> meaning that the call does not
  return.
\<close>

type_synonym address = nat

type_synonym pointer = "address option"

datatype 'd object =
    NumericObj 'd
  | VariableObj string
  | UnaryObj Fncs pointer
  | BinaryObj std_functional pointer pointer

type_synonym 'd store = "'d object list"

definition make_shared :: "'d object \<Rightarrow> 'd store \<Rightarrow> 'd store \<times> pointer" where
  "make_shared obj h = (h @ [obj], Some (length h))"

text \<open>\<^verbatim>\<open>eval\<close>: the second operand is evaluated in the store the first one left.\<close>

partial_function (option) eval_at ::
  "bool \<Rightarrow> (Fncs \<Rightarrow> 'd \<Rightarrow> 'd) \<Rightarrow> (std_functional \<Rightarrow> 'd \<Rightarrow> 'd \<Rightarrow> 'd)
     \<Rightarrow> 'd store \<Rightarrow> pointer \<Rightarrow> ('d store \<times> (error + 'd)) option"
where
  "eval_at right_first un bin h p =
     (case p of
        None \<Rightarrow> Some (h, Inl null_dereference)
      | Some a \<Rightarrow>
          if length h \<le> a then Some (h, Inl dangling_dereference)
          else
            (case h ! a of
               NumericObj v \<Rightarrow> Some (h, Inr v)
             | VariableObj v \<Rightarrow>
                 Some (h, Inl (runtime_error ''Error trying to evaluate a variable.''))
             | UnaryObj f operand \<Rightarrow>
                 Option.bind (eval_at right_first un bin h operand)
                   (\<lambda>(h1, r). Some (h1, case r of Inl e \<Rightarrow> Inl e | Inr x \<Rightarrow> Inr (un f x)))
             | BinaryObj f fst_op snd_op \<Rightarrow>
                 if right_first then
                   Option.bind (eval_at right_first un bin h snd_op)
                     (\<lambda>(h1, r). case r of
                        Inl e \<Rightarrow> Some (h1, Inl e)
                      | Inr y \<Rightarrow>
                          Option.bind (eval_at right_first un bin h1 fst_op)
                            (\<lambda>(h2, r). Some (h2, case r of
                               Inl e \<Rightarrow> Inl e
                             | Inr x \<Rightarrow> Inr (bin f x y))))
                 else
                   Option.bind (eval_at right_first un bin h fst_op)
                     (\<lambda>(h1, r). case r of
                        Inl e \<Rightarrow> Some (h1, Inl e)
                      | Inr x \<Rightarrow>
                          Option.bind (eval_at right_first un bin h1 snd_op)
                            (\<lambda>(h2, r). Some (h2, case r of
                               Inl e \<Rightarrow> Inl e
                             | Inr y \<Rightarrow> Inr (bin f x y))))))"

text \<open>\<^verbatim>\<open>to_string\<close>.\<close>

partial_function (option) to_string_at ::
  "('d \<Rightarrow> string) \<Rightarrow> 'd store \<Rightarrow> pointer \<Rightarrow> ('d store \<times> (error + string)) option"
where
  "to_string_at fmt h p =
     (case p of
        None \<Rightarrow> Some (h, Inl null_dereference)
      | Some a \<Rightarrow>
          if length h \<le> a then Some (h, Inl dangling_dereference)
          else
            (case h ! a of
               NumericObj v \<Rightarrow> Some (h, Inr (fmt v))
             | VariableObj v \<Rightarrow> Some (h, Inr v)
             | UnaryObj f operand \<Rightarrow>
                 Option.bind (to_string_at fmt h operand)
                   (\<lambda>(h1, r). Some (h1, case r of
                      Inl e \<Rightarrow> Inl e
                    | Inr x \<Rightarrow>
                        (case f of
                           Fncs_Neg \<Rightarrow> Inr (''-'' @ x)
                         | Fncs_Exp \<Rightarrow> Inr (''exp('' @ x @ '')'')
                         | Fncs_Log \<Rightarrow> Inr (''log('' @ x @ '')'')
                         | Fncs_Sin \<Rightarrow> Inr (''sin('' @ x @ '')'')
                         | Fncs_Cos \<Rightarrow> Inr (''cos('' @ x @ '')''))))
             | BinaryObj f fst_op snd_op \<Rightarrow>
                 Option.bind (to_string_at fmt h fst_op)
                   (\<lambda>(h1, r). case r of
                      Inl e \<Rightarrow> Some (h1, Inl e)
                    | Inr x \<Rightarrow>
                        Option.bind (to_string_at fmt h1 snd_op)
                          (\<lambda>(h2, r). Some (h2, case r of
                             Inl e \<Rightarrow> Inl e
                           | Inr y \<Rightarrow>
                               (case f of
                                  std_plus \<Rightarrow> Inr (''('' @ x @ '' + '' @ y @ '')'')
                                | std_minus \<Rightarrow> Inr (''('' @ x @ '' - '' @ y @ '')'')
                                | std_multiplies \<Rightarrow> Inr (''('' @ x @ '' * '' @ y @ '')'')
                                | std_divides \<Rightarrow> Inr (''('' @ x @ '' / '' @ y @ '')'')))))))"

text \<open>
  \<^verbatim>\<open>deriv\<close> calls the factories. The derivative of the operand is taken first and the
  other nodes of a rule are allocated after it, innermost first; C++ leaves the order
  of the two arguments of \<^verbatim>\<open>sum\<close> and \<^verbatim>\<open>product\<close> open, which moves the new addresses
  and nothing else. When the operand's \<^verbatim>\<open>deriv\<close> throws, the rule has allocated nothing
  yet, and the exception leaves with the store as the operand's call left it.
\<close>

partial_function (option) deriv_at ::
  "('d::{zero,one}) store \<Rightarrow> pointer \<Rightarrow> string \<Rightarrow> ('d store \<times> (error + pointer)) option"
where
  "deriv_at h p s =
     (case p of
        None \<Rightarrow> Some (h, Inl null_dereference)
      | Some a \<Rightarrow>
          if length h \<le> a then Some (h, Inl dangling_dereference)
          else
            (case h ! a of
               NumericObj v \<Rightarrow> Some (h, Inr None)
             | VariableObj v \<Rightarrow>
                 (case (if s = v then make_shared (NumericObj 1) h
                        else make_shared (NumericObj 0) h) of
                    (h1, q) \<Rightarrow> Some (h1, Inr q))
             | UnaryObj f operand \<Rightarrow>
                 Option.bind (deriv_at h operand s)
                   (\<lambda>(h1, r). case r of
                      Inl e \<Rightarrow> Some (h1, Inl e)
                    | Inr d \<Rightarrow>
                        (case f of
                           Fncs_Neg \<Rightarrow>
                             (case make_shared (UnaryObj Fncs_Neg d) h1 of
                                (h2, q) \<Rightarrow> Some (h2, Inr q))
                         | Fncs_Exp \<Rightarrow>
                             (case make_shared (UnaryObj Fncs_Exp operand) h1 of
                                (h2, e) \<Rightarrow>
                                  (case make_shared (BinaryObj std_plus e d) h2 of
                                     (h3, q) \<Rightarrow> Some (h3, Inr q)))
                         | Fncs_Log \<Rightarrow>
                             (case make_shared (BinaryObj std_divides d operand) h1 of
                                (h2, q) \<Rightarrow> Some (h2, Inr q))
                         | Fncs_Sin \<Rightarrow>
                             (case make_shared (UnaryObj Fncs_Cos operand) h1 of
                                (h2, c) \<Rightarrow>
                                  (case make_shared (BinaryObj std_multiplies d c) h2 of
                                     (h3, q) \<Rightarrow> Some (h3, Inr q)))
                         | Fncs_Cos \<Rightarrow>
                             (case make_shared (UnaryObj Fncs_Sin operand) h1 of
                                (h2, c) \<Rightarrow>
                                  (case make_shared (UnaryObj Fncs_Neg c) h2 of
                                     (h3, n) \<Rightarrow>
                                       (case make_shared (BinaryObj std_multiplies d n) h3 of
                                          (h4, q) \<Rightarrow> Some (h4, Inr q))))))
             | BinaryObj f fst_op snd_op \<Rightarrow> Some (h, Inl (runtime_error ''bar''))))"

text \<open>
  \<open>represents h p t\<close>: followed through the store \<open>h\<close>, the pointer \<open>p\<close> unfolds to
  the tree \<open>t\<close>. Two pointers of \<open>t\<close> may be one address of \<open>h\<close>: that is sharing.
\<close>

inductive represents :: "'d store \<Rightarrow> pointer \<Rightarrow> 'd ExpressionPtr \<Rightarrow> bool" where
  null: "represents h None None"
| numeric: "a < length h \<Longrightarrow> h ! a = NumericObj v \<Longrightarrow>
     represents h (Some a) (Some (Numeric v))"
| variable: "a < length h \<Longrightarrow> h ! a = VariableObj v \<Longrightarrow>
     represents h (Some a) (Some (Variable v))"
| unary: "a < length h \<Longrightarrow> h ! a = UnaryObj f operand \<Longrightarrow> represents h operand t \<Longrightarrow>
     represents h (Some a) (Some (UnaryOperation f t))"
| binary: "a < length h \<Longrightarrow> h ! a = BinaryObj f fst_op snd_op \<Longrightarrow>
     represents h fst_op t1 \<Longrightarrow> represents h snd_op t2 \<Longrightarrow>
     represents h (Some a) (Some (BinaryOperation f t1 t2))"

section \<open>Properties\<close>

lemmas factory_defs =
  numeric_def variable_def neg_def exp_e_def log_e_def sin_e_def cos_e_def
  sum_e_def difference_def product_def division_def

subsection \<open>Evaluation\<close>

text \<open>
  \<^verbatim>\<open>BinaryOperation::eval\<close> has no test on the divisor: the quotient of two literals is
  whatever \<^verbatim>\<open>std::divides<double>\<close> returns for them, in either operand order.
\<close>

lemma eval_division_of_literals:
  "eval_ptr right_first un bin (division (numeric a) (numeric b)) = Inr (bin std_divides a b)"
  by (simp add: division_def numeric_def)

subsection \<open>Printing\<close>

lemma six_digits_0: "six_digits 0 = ''000000''"
  by (simp add: six_digits_def digit_char_def)

lemma std_to_string_2: "std_to_string 2 = ''2.000000''"
proof -
  have r: "round_half_even 2000000 = 2000000" by (simp add: round_half_even_def)
  have d: "decimal 2 = ''2''" by (simp add: decimal.simps digit_char_def)
  show ?thesis
    unfolding std_to_string_def Let_def by (simp add: r d six_digits_0)
qed

lemma std_to_string_3: "std_to_string 3 = ''3.000000''"
proof -
  have r: "round_half_even 3000000 = 3000000" by (simp add: round_half_even_def)
  have d: "decimal 3 = ''3''" by (simp add: decimal.simps digit_char_def)
  show ?thesis
    unfolding std_to_string_def Let_def by (simp add: r d six_digits_0)
qed

text \<open>Printing never throws: the only way it can go wrong is a null pointer.\<close>

lemma to_string_only_null:
  "to_string fmt e = Inl err \<Longrightarrow> err = null_dereference"
  "to_string_ptr fmt p = Inl err \<Longrightarrow> err = null_dereference"
  by (induction fmt e and fmt p arbitrary: err and err rule: to_string_to_string_ptr.induct)
     (auto split: sum.splits Fncs.splits std_functional.splits)

text \<open>A tree without null pointers always prints.\<close>

lemma to_string_well_formed:
  "well_formed e \<Longrightarrow> \<exists>t. to_string fmt e = Inr t"
  "well_formed_ptr p \<Longrightarrow> \<exists>t. to_string_ptr fmt p = Inr t"
  by (induction fmt e and fmt p rule: to_string_to_string_ptr.induct)
     (auto split: sum.splits Fncs.splits std_functional.splits)

subsection \<open>Unary trees over a literal\<close>

lemma eval_literal_tree: "\<exists>v. eval_ptr rf un bin (unary_tree fs (numeric c)) = Inr v"
  by (induction fs) (auto simp: numeric_def)

lemma to_string_literal_tree: "\<exists>t. to_string_ptr fmt (unary_tree fs (numeric c)) = Inr t"
  by (induction fs) (auto simp: numeric_def split: Fncs.splits)

text \<open>
  The derivative of a unary tree over a literal holds the null pointer that
  \<^verbatim>\<open>Numeric::deriv\<close> returned: every rule puts the operand's derivative into its result.
  \<^verbatim>\<open>eval\<close> and \<^verbatim>\<open>to_string\<close> walk into it. A second \<^verbatim>\<open>deriv\<close> reaches it only through
  \<^verbatim>\<open>Neg\<close> nodes: the other four rules build a \<^verbatim>\<open>BinaryOperation\<close>, whose \<^verbatim>\<open>deriv\<close>
  throws first.
\<close>

lemma deriv_literal_tree:
  "\<exists>p. deriv_ptr (unary_tree fs (numeric c)) x = Inr p
     \<and> eval_ptr rf un bin p = Inl null_dereference
     \<and> to_string_ptr fmt p = Inl null_dereference
     \<and> deriv_ptr p y =
         Inl (if list_all (\<lambda>f. f = Fncs_Neg) fs then null_dereference
              else runtime_error ''bar'')"
proof (induction fs)
  case Nil
  show ?case by (simp add: numeric_def)
next
  case (Cons f fs)
  then obtain p where p: "deriv_ptr (unary_tree fs (numeric c)) x = Inr p"
    "eval_ptr rf un bin p = Inl null_dereference"
    "to_string_ptr fmt p = Inl null_dereference"
    "deriv_ptr p y =
       Inl (if list_all (\<lambda>f. f = Fncs_Neg) fs then null_dereference
            else runtime_error ''bar'')"
    by (elim exE conjE)
  obtain v where v: "eval_ptr rf un bin (unary_tree fs (numeric c)) = Inr v"
    using eval_literal_tree [of rf un bin fs c] by (elim exE)
  obtain t where t: "to_string_ptr fmt (unary_tree fs (numeric c)) = Inr t"
    using to_string_literal_tree [of fmt fs c] by (elim exE)
  show ?case using p v t
    by (cases f; cases rf) (simp_all add: factory_defs)
qed

subsection \<open>Unary trees over a variable\<close>

lemma well_formed_variable_tree: "well_formed_ptr (unary_tree fs (variable v))"
  by (induction fs) (simp_all add: variable_def)

lemma deriv_variable_tree:
  "\<exists>p :: ('d::{zero,one}) ExpressionPtr. deriv_ptr (unary_tree fs (variable v)) x = Inr p \<and> well_formed_ptr p"
proof (induction fs)
  case Nil
  show ?case by (simp add: variable_def numeric_def)
next
  case (Cons f fs)
  then obtain p :: "'d ExpressionPtr"
    where "deriv_ptr (unary_tree fs (variable v)) x = Inr p" "well_formed_ptr p"
    by (elim exE conjE)
  then show ?case
    using well_formed_variable_tree [of fs v]
    by (cases f) (simp_all add: factory_defs)
qed

text \<open>Over a variable leaf, differentiating and then printing does succeed.\<close>

lemma deriv_then_to_string_variable_tree:
  fixes fmt :: "('d::{zero,one}) \<Rightarrow> string"
  shows "\<exists>p t. deriv_ptr (unary_tree fs (variable v)) x = Inr p \<and> to_string_ptr fmt p = Inr t"
proof -
  obtain p :: "'d ExpressionPtr" where p: "deriv_ptr (unary_tree fs (variable v)) x = Inr p" "well_formed_ptr p"
    using deriv_variable_tree [of fs v x] by (elim exE conjE)
  obtain t where "to_string_ptr fmt p = Inr t"
    using to_string_well_formed(2) [OF p(2), of fmt] by (elim exE)
  with p(1) show ?thesis by (intro exI conjI)
qed

subsection \<open>The store\<close>

lemma represents_append: "represents h p t \<Longrightarrow> represents (h @ new) p t"
  by (induction rule: represents.induct)
     (auto simp: nth_append intro: represents.intros)

text \<open>
  \<^verbatim>\<open>eval\<close> and \<^verbatim>\<open>to_string\<close> on the store return, leave the store as it was, and have
  the outcome they have on the tree.
\<close>

lemma eval_at_represents:
  "represents h p t \<Longrightarrow> eval_at rf un bin h p = Some (h, eval_ptr rf un bin t)"
proof (induction rule: represents.induct)
  case (null h)
  show ?case by (subst eval_at.simps) simp
next
  case (numeric a h v)
  then show ?case by (subst eval_at.simps) simp
next
  case (variable a h v)
  then show ?case by (subst eval_at.simps) simp
next
  case (unary a h f operand t)
  then show ?case by (subst eval_at.simps) (simp split: sum.splits)
next
  case (binary a h f fst_op snd_op t1 t2)
  then show ?case
    by (cases rf; subst eval_at.simps) (simp_all split: sum.splits)
qed

lemma to_string_at_represents:
  "represents h p t \<Longrightarrow> to_string_at fmt h p = Some (h, to_string_ptr fmt t)"
proof (induction rule: represents.induct)
  case (null h)
  show ?case by (subst to_string_at.simps) simp
next
  case (numeric a h v)
  then show ?case by (subst to_string_at.simps) simp
next
  case (variable a h v)
  then show ?case by (subst to_string_at.simps) simp
next
  case (unary a h f operand t)
  then show ?case by (subst to_string_at.simps) (simp split: sum.splits Fncs.splits)
next
  case (binary a h f fst_op snd_op t1 t2)
  then show ?case
    by (subst to_string_at.simps) (simp split: sum.splits std_functional.splits)
qed

text \<open>
  \<^verbatim>\<open>deriv\<close> on the store does what \<^verbatim>\<open>deriv\<close> on the tree does. When it throws, the
  store is as it was; when it returns, the store is the old store with new objects
  appended, and a result that is not null is one of the new objects.
\<close>

lemma deriv_at_represents:
  fixes h :: "('d::{zero,one}) store"
  assumes "represents h p t"
  shows "case deriv_ptr t s of
           Inl e \<Rightarrow> deriv_at h p s = Some (h, Inl e)
         | Inr t' \<Rightarrow>
             (\<exists>new q. deriv_at h p s = Some (h @ new, Inr q)
                \<and> represents (h @ new) q t'
                \<and> (\<forall>a. q = Some a \<longrightarrow> length h \<le> a))"
  using assms
proof (induction rule: represents.induct)
  case (null h)
  show ?case by (subst deriv_at.simps) simp
next
  case (numeric a h v)
  have "deriv_at h (Some a) s = Some (h @ [], Inr None)"
    using numeric by (subst deriv_at.simps) simp
  then show ?case
    by (auto intro: represents.null simp del: append_Nil2)
next
  case (variable a h v)
  have "deriv_at h (Some a) s =
          Some (h @ [NumericObj (if s = v then 1 else 0)], Inr (Some (length h)))"
    using variable by (subst deriv_at.simps) (simp add: make_shared_def)
  moreover have "represents (h @ [NumericObj (if s = v then 1 else 0)]) (Some (length h))
                   (Some (Numeric (if s = v then 1 else 0)))"
    by (rule represents.numeric) simp_all
  ultimately show ?case
    by (auto simp: numeric_def)
next
  case (unary a h f operand t)
  show ?case
  proof (cases "deriv_ptr t s")
    case (Inl e)
    with unary show ?thesis by (subst deriv_at.simps) simp
  next
    case (Inr t')
    with unary.IH obtain new d where
      d: "deriv_at h operand s = Some (h @ new, Inr d)"
         "represents (h @ new) d t'"
      by auto
    have op: "\<And>more. represents ((h @ new) @ more) operand t"
      using unary.hyps(3) represents_append [of h operand t] by (metis append.assoc)
    have dd: "\<And>more. represents ((h @ new) @ more) d t'"
      using d(2) by (rule represents_append)
    show ?thesis
    proof (cases f)
      case Fncs_Neg
      have "deriv_at h (Some a) s =
              Some (h @ (new @ [UnaryObj Fncs_Neg d]), Inr (Some (length (h @ new))))"
        using unary.hyps d(1) Fncs_Neg by (subst deriv_at.simps) (simp add: make_shared_def)
      moreover have "represents (h @ (new @ [UnaryObj Fncs_Neg d])) (Some (length (h @ new)))
                       (Some (Neg t'))"
        using dd [of "[UnaryObj Fncs_Neg d]"]
        by (intro represents.unary [where operand = d]) (simp_all add: nth_append)
      ultimately show ?thesis
        using Inr Fncs_Neg by (auto simp: neg_def)
    next
      case Fncs_Exp
      let ?new = "new @ [UnaryObj Fncs_Exp operand,
                         BinaryObj std_plus (Some (length (h @ new))) d]"
      have "deriv_at h (Some a) s = Some (h @ ?new, Inr (Some (Suc (length (h @ new)))))"
        using unary.hyps d(1) Fncs_Exp by (subst deriv_at.simps) (simp add: make_shared_def)
      moreover have "represents (h @ ?new) (Some (Suc (length (h @ new))))
                       (Some (Sum (Some (Exp t)) t'))"
        using dd [of "[UnaryObj Fncs_Exp operand,
                       BinaryObj std_plus (Some (length (h @ new))) d]"]
          op [of "[UnaryObj Fncs_Exp operand,
                   BinaryObj std_plus (Some (length (h @ new))) d]"]
        by (intro represents.binary [where fst_op = "Some (length (h @ new))" and snd_op = d]
              represents.unary [where operand = operand])
           (simp_all add: nth_append)
      ultimately show ?thesis
        using Inr Fncs_Exp by (auto simp: sum_e_def exp_e_def)
    next
      case Fncs_Log
      let ?new = "new @ [BinaryObj std_divides d operand]"
      have "deriv_at h (Some a) s = Some (h @ ?new, Inr (Some (length (h @ new))))"
        using unary.hyps d(1) Fncs_Log by (subst deriv_at.simps) (simp add: make_shared_def)
      moreover have "represents (h @ ?new) (Some (length (h @ new)))
                       (Some (Division t' t))"
        using dd [of "[BinaryObj std_divides d operand]"]
          op [of "[BinaryObj std_divides d operand]"]
        by (intro represents.binary [where fst_op = d and snd_op = operand])
           (simp_all add: nth_append)
      ultimately show ?thesis
        using Inr Fncs_Log by (auto simp: division_def)
    next
      case Fncs_Sin
      let ?new = "new @ [UnaryObj Fncs_Cos operand,
                         BinaryObj std_multiplies d (Some (length (h @ new)))]"
      have "deriv_at h (Some a) s = Some (h @ ?new, Inr (Some (Suc (length (h @ new)))))"
        using unary.hyps d(1) Fncs_Sin by (subst deriv_at.simps) (simp add: make_shared_def)
      moreover have "represents (h @ ?new) (Some (Suc (length (h @ new))))
                       (Some (Product t' (Some (Cos t))))"
        using dd [of "[UnaryObj Fncs_Cos operand,
                       BinaryObj std_multiplies d (Some (length (h @ new)))]"]
          op [of "[UnaryObj Fncs_Cos operand,
                   BinaryObj std_multiplies d (Some (length (h @ new)))]"]
        by (intro represents.binary [where fst_op = d and snd_op = "Some (length (h @ new))"]
              represents.unary [where operand = operand])
           (simp_all add: nth_append)
      ultimately show ?thesis
        using Inr Fncs_Sin by (auto simp: product_def cos_e_def)
    next
      case Fncs_Cos
      let ?more = "[UnaryObj Fncs_Sin operand,
                    UnaryObj Fncs_Neg (Some (length (h @ new))),
                    BinaryObj std_multiplies d (Some (Suc (length (h @ new))))]"
      have "deriv_at h (Some a) s =
              Some (h @ (new @ ?more), Inr (Some (Suc (Suc (length (h @ new))))))"
        using unary.hyps d(1) Fncs_Cos by (subst deriv_at.simps) (simp add: make_shared_def)
      moreover have "represents (h @ (new @ ?more)) (Some (Suc (Suc (length (h @ new)))))
                       (Some (Product t' (Some (Neg (Some (Sin t))))))"
        using dd [of ?more] op [of ?more]
        by (intro represents.binary
                    [where fst_op = d and snd_op = "Some (Suc (length (h @ new)))"]
              represents.unary [where operand = "Some (length (h @ new))"]
              represents.unary [where operand = operand])
           (simp_all add: nth_append)
      ultimately show ?thesis
        using Inr Fncs_Cos by (auto simp: product_def neg_def sin_e_def)
    qed
  qed
next
  case (binary a h f fst_op snd_op t1 t2)
  then show ?case by (subst deriv_at.simps) simp
qed

section \<open>The claims of the specification\<close>

subsection \<open>Differentiating a literal\<close>

text \<open>
  C1. The specification says that \<open>differentiate(literal(c), x)\<close> is \<open>literal(0)\<close>.
  \<^verbatim>\<open>Numeric::deriv\<close> is \<^verbatim>\<open>return 0;\<close>, which is the null pointer and not \<^verbatim>\<open>numeric(0)\<close>,
  the node that \<^verbatim>\<open>Variable::deriv\<close> returns for a zero derivative. At the literal
  \<open>2\<close> and the variable \<open>x\<close> the code returns null, which is not \<open>literal(0)\<close>.
\<close>

theorem numeric_deriv_is_null_not_zero:
  "deriv_ptr (numeric (2::real)) ''x'' = Inr None
   \<and> deriv_ptr (numeric (2::real)) ''x'' \<noteq> Inr (numeric 0)"
  by (simp add: numeric_def)

subsection \<open>The rule for \<open>exp\<close>\<close>

text \<open>
  C2. For every expression \<open>u\<close> and variable name \<open>x\<close>, when \<open>differentiate(u, x)\<close>
  returns \<open>u'\<close>, \<open>differentiate(exp(u), x)\<close> returns \<open>add(exp(u), u')\<close>: a sum, not the
  product of the chain rule.
\<close>

theorem exp_deriv_is_sum:
  "deriv_ptr u x = Inr u' \<Longrightarrow> deriv_ptr (exp_e u) x = Inr (sum_e (exp_e u) u')"
  by (simp add: exp_e_def)

theorem exp_deriv_is_sum_witness:
  "deriv_ptr (variable ''x'' :: real ExpressionPtr) ''x'' = Inr (numeric 1)
   \<and> deriv_ptr (exp_e (variable ''x'' :: real ExpressionPtr)) ''x''
       = Inr (sum_e (exp_e (variable ''x'')) (numeric 1))"
  using exp_deriv_is_sum [of "variable ''x'' :: real ExpressionPtr" "''x''" "numeric 1"]
  by (simp add: variable_def)

subsection \<open>Differentiating a binary operation\<close>

text \<open>
  C3, as the specification states it, has the failure of \<open>differentiate\<close> on a
  binary node carry the node's operator tag. It does not: a sum and a product of the
  same operands fail with the very same exception, \<^verbatim>\<open>std::runtime_error("bar")\<close>.
\<close>

theorem binary_deriv_failure_has_no_tag:
  "deriv_ptr (sum_e (numeric (1::real)) (numeric 2)) ''x''
     = deriv_ptr (product (numeric (1::real)) (numeric 2)) ''x''
   \<and> deriv_ptr (sum_e (numeric (1::real)) (numeric 2)) ''x'' = Inl (runtime_error ''bar'')"
  by (simp add: sum_e_def product_def)

text \<open>
  C3, amended. For every binary node (add, subtract, multiply or divide), whatever its
  operands and whatever the variable name, \<open>differentiate\<close> fails, with a
  \<^verbatim>\<open>runtime_error\<close> whose message is the fixed text \<open>bar\<close>; the failure is the same
  for all four operators.
\<close>

theorem binary_deriv_throws_bar:
  "deriv (BinaryOperation f fst_op snd_op) s = Inl (runtime_error ''bar'')
   \<and> deriv_ptr (Some (BinaryOperation f fst_op snd_op)) s = Inl (runtime_error ''bar'')"
  by simp

subsection \<open>Evaluating a variable\<close>

text \<open>
  C4, as the specification states it, has the failure of \<open>evaluate\<close> on a variable
  carry the variable's name. It does not: the variables \<open>a\<close> and \<open>b\<close> fail with
  the very same exception, whose message names neither.
\<close>

theorem variable_eval_failure_has_no_name:
  "eval_ptr False (\<lambda>f x. x) (\<lambda>f x y. x) (variable ''a'' :: real ExpressionPtr)
     = eval_ptr False (\<lambda>f x. x) (\<lambda>f x y. x) (variable ''b'')
   \<and> eval_ptr False (\<lambda>f x. x) (\<lambda>f x y. x) (variable ''a'' :: real ExpressionPtr)
     = Inl (runtime_error ''Error trying to evaluate a variable.'')"
  by (simp add: variable_def)

text \<open>
  C4, amended. For every variable name \<open>v\<close>, \<open>evaluate(variable(v))\<close> fails, with a
  \<^verbatim>\<open>runtime_error\<close> whose message is the fixed text
  \<open>Error trying to evaluate a variable.\<close>, the same for every name.
\<close>

theorem variable_eval_throws:
  "eval_ptr right_first un bin (variable v)
     = Inl (runtime_error ''Error trying to evaluate a variable.'')"
  by (simp add: variable_def)

subsection \<open>Differentiating, then printing\<close>

text \<open>
  C5. The specification says that differentiating a well-formed unary-only tree and
  printing the result never fails. For every such tree whose leaf is a literal, of any
  depth (the literal alone included), \<^verbatim>\<open>deriv\<close> returns a tree that holds the null
  pointer of \<^verbatim>\<open>Numeric::deriv\<close>, and \<^verbatim>\<open>to_string\<close> calls a method through it.
\<close>

theorem deriv_then_to_string_literal_tree:
  "\<exists>p. deriv_ptr (unary_tree fs (numeric c)) x = Inr p
       \<and> to_string_ptr fmt p = Inl null_dereference"
  using deriv_literal_tree [of fs c x True "\<lambda>f x. x" "\<lambda>f x y. x" fmt x] by blast

subsection \<open>Differentiating a variable\<close>

text \<open>
  C6. For all variable names \<open>v\<close> and \<open>w\<close>, \<open>differentiate(variable(v), v)\<close> is
  \<open>literal(1)\<close>, and \<open>differentiate(variable(v), w)\<close> is \<open>literal(0)\<close> when \<open>v \<noteq> w\<close>.
\<close>

theorem variable_deriv:
  "deriv_ptr (variable v) v = Inr (numeric 1)
   \<and> (v \<noteq> w \<longrightarrow> deriv_ptr (variable v) w = Inr (numeric 0))"
  by (simp add: variable_def)

theorem variable_deriv_witness:
  "deriv_ptr (variable ''x'') ''x'' = Inr (numeric (1::real))
   \<and> ''x'' \<noteq> ''y''
   \<and> deriv_ptr (variable ''x'') ''y'' = Inr (numeric (0::real))"
  using variable_deriv [of "''x''" "''y''", where ?'a = real] by simp

subsection \<open>The shape of printed expressions\<close>

text \<open>
  C8. Every binary operation prints as \<open>(\<close>, its left operand, the operator between
  two spaces, its right operand and \<open>)\<close>; \<open>exp\<close>, \<open>log\<close>, \<open>sin\<close> and \<open>cos\<close> print as
  the function name and the operand in parentheses; \<open>negate\<close> prints as \<open>-\<close> and the
  operand, with no parentheses. Here \<open>x\<close> and \<open>y\<close> are the printed operands, and
  every well-formed tree does print. With \<^verbatim>\<open>std::to_string\<close> on doubles,
  \<open>add(literal(2), literal(3))\<close> prints as \<open>(2.000000 + 3.000000)\<close>.
\<close>

theorem to_string_shapes:
  "to_string_ptr fmt a = Inr x \<Longrightarrow> to_string_ptr fmt b = Inr y \<Longrightarrow>
     to_string_ptr fmt (sum_e a b) = Inr (''('' @ x @ '' + '' @ y @ '')'')
   \<and> to_string_ptr fmt (difference a b) = Inr (''('' @ x @ '' - '' @ y @ '')'')
   \<and> to_string_ptr fmt (product a b) = Inr (''('' @ x @ '' * '' @ y @ '')'')
   \<and> to_string_ptr fmt (division a b) = Inr (''('' @ x @ '' / '' @ y @ '')'')
   \<and> to_string_ptr fmt (exp_e a) = Inr (''exp('' @ x @ '')'')
   \<and> to_string_ptr fmt (log_e a) = Inr (''log('' @ x @ '')'')
   \<and> to_string_ptr fmt (sin_e a) = Inr (''sin('' @ x @ '')'')
   \<and> to_string_ptr fmt (cos_e a) = Inr (''cos('' @ x @ '')'')
   \<and> to_string_ptr fmt (neg a) = Inr (''-'' @ x)
   \<and> (well_formed_ptr e \<longrightarrow> (\<exists>t. to_string_ptr fmt e = Inr t))
   \<and> to_string_ptr std_to_string (sum_e (numeric 2) (numeric 3))
       = Inr ''(2.000000 + 3.000000)''"
  using to_string_well_formed(2) [of e fmt]
  by (simp add: factory_defs std_to_string_2 std_to_string_3)

theorem to_string_shapes_witness:
  "to_string_ptr std_to_string (numeric 2) = Inr ''2.000000''
   \<and> to_string_ptr std_to_string (numeric 3) = Inr ''3.000000''
   \<and> to_string_ptr std_to_string (product (numeric 2) (numeric 3))
       = Inr ''(2.000000 * 3.000000)''
   \<and> to_string_ptr std_to_string (neg (numeric 2)) = Inr ''-2.000000''
   \<and> to_string_ptr std_to_string (cos_e (numeric 2)) = Inr ''cos(2.000000)''
   \<and> well_formed_ptr (log_e (numeric (2::real)))
   \<and> (\<exists>t. to_string_ptr std_to_string (log_e (numeric 2)) = Inr t)"
proof -
  have a: "to_string_ptr std_to_string (numeric 2) = Inr ''2.000000''"
    by (simp add: numeric_def std_to_string_2)
  have b: "to_string_ptr std_to_string (numeric 3) = Inr ''3.000000''"
    by (simp add: numeric_def std_to_string_3)
  have w: "well_formed_ptr (log_e (numeric (2::real)))"
    by (simp add: numeric_def log_e_def)
  show ?thesis
    using a b w to_string_shapes [OF a b, of "log_e (numeric 2)"]
    by simp
qed

subsection \<open>The null pointer returned for a literal\<close>

text \<open>
  C10, as stated, has every later \<open>differentiate\<close> on the derivative of a unary tree
  over a literal, such as \<open>sin(literal(c))\<close>, dereference a null pointer. The
  derivative of \<open>sin(literal(2))\<close> is the product of a null pointer and
  \<open>cos(literal(2))\<close>, and differentiating a product throws \<^verbatim>\<open>runtime_error("bar")\<close>
  before any operand is touched: here there is no null dereference.
\<close>

theorem deriv_of_sin_literal_deriv_throws:
  "deriv_ptr (sin_e (numeric (2::real))) ''x'' = Inr (product None (cos_e (numeric 2)))
   \<and> deriv_ptr (product None (cos_e (numeric (2::real)))) ''x'' = Inl (runtime_error ''bar'')"
  by (simp add: factory_defs)

text \<open>
  C10, amended. For every literal \<open>c\<close> and variable name \<open>x\<close>,
  \<open>differentiate(literal(c), x)\<close> returns the null pointer and no node, and \<open>evaluate\<close>,
  \<open>differentiate\<close> and \<open>to_text\<close> applied to that result call a method through a null
  pointer. For every unary tree over a literal, such as \<open>sin(literal(c))\<close>,
  \<open>differentiate\<close> returns a tree \<open>p\<close> on which \<open>evaluate\<close> (in either operand order)
  and \<open>to_text\<close> dereference a null pointer; a further \<open>differentiate\<close> on \<open>p\<close>
  dereferences it when every operator of the tree is \<open>negate\<close>, and otherwise throws
  the \<^verbatim>\<open>runtime_error("bar")\<close> of a binary node.
\<close>

theorem numeric_deriv_null_then_undefined:
  "deriv_ptr (numeric c) x = Inr None
   \<and> eval_ptr right_first un bin None = Inl null_dereference
   \<and> deriv_ptr None y = Inl null_dereference
   \<and> to_string_ptr fmt None = Inl null_dereference
   \<and> (\<exists>p. deriv_ptr (unary_tree fs (numeric c)) x = Inr p
          \<and> eval_ptr right_first un bin p = Inl null_dereference
          \<and> to_string_ptr fmt p = Inl null_dereference
          \<and> deriv_ptr p y =
              Inl (if list_all (\<lambda>f. f = Fncs_Neg) fs then null_dereference
                   else runtime_error ''bar''))"
  using deriv_literal_tree [of fs c x right_first un bin fmt y]
  by (simp add: numeric_def)

subsection \<open>Dividing by zero\<close>

text \<open>
  C7. \<open>evaluate\<close> never treats a division by zero as an error: whenever the two
  operands of a \<open>divide\<close> evaluate, to \<open>x\<close> and \<open>y\<close>, the division evaluates to what
  \<^verbatim>\<open>std::divides<double>\<close> gives for \<open>x\<close> and \<open>y\<close>, zero or not. With the IEEE division of
  doubles, \<open>evaluate(divide(literal(1), literal(0)))\<close> returns positive infinity, and
  dividing any literal by a zero returns an infinity or NaN.
\<close>

theorem eval_division_by_zero:
  "(eval_ptr right_first un bin a = Inr x \<longrightarrow> eval_ptr right_first un bin b = Inr y \<longrightarrow>
      eval_ptr right_first un bin (division a b) = Inr (bin std_divides x y))
   \<and> (dbin std_divides = ieee_divides rnd \<longrightarrow>
        eval_ptr right_first dun dbin (division (numeric (Finite 1)) (numeric (Finite 0)))
          = Inr PlusInfinity
      \<and> (is_zero z \<longrightarrow>
           (\<exists>r. eval_ptr right_first dun dbin (division (numeric c) (numeric z)) = Inr r
              \<and> (r = PlusInfinity \<or> r = MinusInfinity \<or> r = NaN))))"
proof -
  have general: "eval_ptr right_first un bin a = Inr x \<longrightarrow>
      eval_ptr right_first un bin b = Inr y \<longrightarrow>
      eval_ptr right_first un bin (division a b) = Inr (bin std_divides x y)"
    by (cases right_first) (simp_all add: division_def)
  have one_by_zero: "ieee_divides rnd (Finite 1) (Finite 0) = PlusInfinity"
    by (simp add: ieee_divides_def signed_infinity_def)
  have by_zero: "is_zero z \<Longrightarrow>
      ieee_divides rnd c z = PlusInfinity \<or> ieee_divides rnd c z = MinusInfinity
        \<or> ieee_divides rnd c z = NaN"
    by (cases z; cases c) (auto simp: ieee_divides_def signed_infinity_def)
  show ?thesis
    using general one_by_zero by_zero
    by (simp add: division_def numeric_def)
qed

theorem eval_division_by_zero_witness:
  "eval_ptr False (\<lambda>f x. x) (\<lambda>f. ieee_divides Finite) (numeric (Finite 1)) = Inr (Finite 1)
   \<and> eval_ptr False (\<lambda>f x. x) (\<lambda>f. ieee_divides Finite) (numeric (Finite 0)) = Inr (Finite 0)
   \<and> eval_ptr False (\<lambda>f x. x) (\<lambda>f. ieee_divides Finite)
        (division (numeric (Finite 1)) (numeric (Finite 0))) = Inr PlusInfinity
   \<and> is_zero NegativeZero
   \<and> eval_ptr False (\<lambda>f x. x) (\<lambda>f. ieee_divides Finite)
        (division (numeric (Finite 1)) (numeric NegativeZero)) = Inr MinusInfinity"
  using eval_division_by_zero
    [of False "\<lambda>f x. x" "\<lambda>f. ieee_divides Finite" "numeric (Finite 1)" "Finite 1"
        "numeric (Finite 0)" "Finite 0" "\<lambda>f. ieee_divides Finite" Finite "\<lambda>f x. x"
        NegativeZero "Finite 1"]
  by (simp add: numeric_def division_def ieee_divides_def signed_infinity_def)

subsection \<open>No operation changes an existing node\<close>

text \<open>
  C9, as stated, has \<open>differentiate\<close> build a brand-new result tree for every
  expression tree. On \<open>add(literal(1), literal(2))\<close> it throws, and on \<open>literal(2)\<close> it
  returns the null pointer: both times the store is left exactly as it was, and no
  tree has been built.
\<close>

theorem deriv_builds_no_tree:
  "deriv_at [NumericObj 1, NumericObj 2, BinaryObj std_plus (Some 0) (Some 1) :: real object]
      (Some 2) ''x''
     = Some ([NumericObj 1, NumericObj 2, BinaryObj std_plus (Some 0) (Some 1)],
             Inl (runtime_error ''bar''))
   \<and> deriv_at [NumericObj (2::real)] (Some 0) ''x'' = Some ([NumericObj 2], Inr None)"
  by (simp add: deriv_at.simps)

text \<open>
  C9, amended. Let the pointer \<open>p\<close> stand for the tree \<open>t\<close> in the store \<open>h\<close>, with
  whatever sharing. \<open>evaluate\<close> and \<open>to_text\<close> return, leave the store as it was, and
  their outcome is a function of \<open>t\<close> alone. \<open>differentiate\<close> returns or throws as it
  does on \<open>t\<close>, and leaves the old store followed by new objects: every object that
  existed is unchanged, and \<open>p\<close> still stands for \<open>t\<close>. When it throws, as on every
  binary node, it has built nothing. When it returns an expression node, that node is
  one of the new objects.
\<close>

theorem operations_do_not_mutate:
  fixes h :: "('d::{zero,one}) store"
  shows "represents h p t \<Longrightarrow>
     eval_at right_first un bin h p = Some (h, eval_ptr right_first un bin t)
   \<and> to_string_at fmt h p = Some (h, to_string_ptr fmt t)
   \<and> (\<exists>new r. deriv_at h p s = Some (h @ new, r)
        \<and> (\<forall>a. a < length h \<longrightarrow> (h @ new) ! a = h ! a)
        \<and> represents (h @ new) p t
        \<and> (case r of
              Inl e \<Rightarrow> deriv_ptr t s = Inl e \<and> new = []
            | Inr q \<Rightarrow>
                (\<exists>t'. deriv_ptr t s = Inr t' \<and> represents (h @ new) q t')
                \<and> (\<forall>a. q = Some a \<longrightarrow> length h \<le> a \<and> a < length (h @ new))))"
proof -
  assume r: "represents h p t"
  have frame: "\<And>new. \<forall>a. a < length h \<longrightarrow> (h @ new) ! a = h ! a"
    by (simp add: nth_append)
  have inside: "\<And>new q t'. represents (h @ new) q t' \<Longrightarrow>
      \<forall>a. q = Some a \<longrightarrow> a < length (h @ new)"
    by (auto elim: represents.cases)
  have "\<exists>new r. deriv_at h p s = Some (h @ new, r)
        \<and> (\<forall>a. a < length h \<longrightarrow> (h @ new) ! a = h ! a)
        \<and> represents (h @ new) p t
        \<and> (case r of
              Inl e \<Rightarrow> deriv_ptr t s = Inl e \<and> new = []
            | Inr q \<Rightarrow>
                (\<exists>t'. deriv_ptr t s = Inr t' \<and> represents (h @ new) q t')
                \<and> (\<forall>a. q = Some a \<longrightarrow> length h \<le> a \<and> a < length (h @ new)))"
  proof (cases "deriv_ptr t s")
    case (Inl e)
    then have "deriv_at h p s = Some (h @ [], Inl e)"
      using deriv_at_represents [OF r, of s] by simp
    moreover have "represents (h @ []) p t" using r by simp
    ultimately show ?thesis
      using Inl frame [of "[]"] by (intro exI [of _ "[]"] exI [of _ "Inl e"]) simp
  next
    case (Inr t')
    then obtain new q where
      d: "deriv_at h p s = Some (h @ new, Inr q)" "represents (h @ new) q t'"
         "\<forall>a. q = Some a \<longrightarrow> length h \<le> a"
      using deriv_at_represents [OF r, of s] by auto
    show ?thesis
      using d Inr frame [of new] inside [OF d(2)] represents_append [OF r, of new]
      by (intro exI [of _ new] exI [of _ "Inr q"]) auto
  qed
  then show ?thesis
    using eval_at_represents [OF r] to_string_at_represents [OF r] by simp
qed

text \<open>
  An instance: the store holds \<open>x\<close>, \<open>sin(x)\<close> and \<open>sin(x) + sin(x)\<close>, the sum
  sharing its operand; the pointer is the one to \<open>sin(x)\<close>.
\<close>

theorem operations_do_not_mutate_witness:
  "represents
     [VariableObj ''x'', UnaryObj Fncs_Sin (Some 0), BinaryObj std_plus (Some 1) (Some 1)]
     (Some 1) (sin_e (variable ''x'') :: real ExpressionPtr)
   \<and> eval_at False (\<lambda>f x. x) (\<lambda>f x y. x)
       [VariableObj ''x'', UnaryObj Fncs_Sin (Some 0),
        BinaryObj std_plus (Some 1) (Some 1) :: real object]
       (Some 1)
     = Some ([VariableObj ''x'', UnaryObj Fncs_Sin (Some 0),
              BinaryObj std_plus (Some 1) (Some 1)],
             Inl (runtime_error ''Error trying to evaluate a variable.''))
   \<and> to_string_at std_to_string
       [VariableObj ''x'', UnaryObj Fncs_Sin (Some 0), BinaryObj std_plus (Some 1) (Some 1)]
       (Some 1)
     = Some ([VariableObj ''x'', UnaryObj Fncs_Sin (Some 0),
              BinaryObj std_plus (Some 1) (Some 1)],
             Inr ''sin(x)'')
   \<and> (\<exists>new r. deriv_at
         [VariableObj ''x'', UnaryObj Fncs_Sin (Some 0),
          BinaryObj std_plus (Some 1) (Some 1) :: real object]
         (Some 1) ''x''
       = Some ([VariableObj ''x'', UnaryObj Fncs_Sin (Some 0),
                BinaryObj std_plus (Some 1) (Some 1)] @ new, r)
       \<and> (case r of
             Inl e \<Rightarrow> False
           | Inr q \<Rightarrow>
               represents
                 ([VariableObj ''x'', UnaryObj Fncs_Sin (Some 0),
                   BinaryObj std_plus (Some 1) (Some 1)] @ new)
                 q (product (numeric 1) (cos_e (variable ''x'')))))"
proof -
  let ?h = "[VariableObj ''x'', UnaryObj Fncs_Sin (Some 0),
             BinaryObj std_plus (Some 1) (Some 1) :: real object]"
  have "represents ?h (Some 0) (Some (Variable ''x''))"
    by (rule represents.variable) simp_all
  then have r: "represents ?h (Some 1) (sin_e (variable ''x''))"
    unfolding sin_e_def variable_def
    by (rule represents.unary [rotated 2]) simp_all
  obtain new res where
    d: "deriv_at ?h (Some 1) ''x'' = Some (?h @ new, res)"
       "case res of
          Inl e \<Rightarrow> deriv_ptr (sin_e (variable ''x'' :: real ExpressionPtr)) ''x'' = Inl e
                     \<and> new = []
        | Inr q \<Rightarrow>
            (\<exists>t'. deriv_ptr (sin_e (variable ''x'' :: real ExpressionPtr)) ''x'' = Inr t'
                   \<and> represents (?h @ new) q t')
            \<and> (\<forall>a. q = Some a \<longrightarrow> length ?h \<le> a \<and> a < length (?h @ new))"
    using operations_do_not_mutate
      [OF r, of False "\<lambda>f x. x" "\<lambda>f x y. x" std_to_string "''x''"]
    by blast
  have shape: "case res of
      Inl e \<Rightarrow> False
    | Inr q \<Rightarrow> represents (?h @ new) q (product (numeric 1) (cos_e (variable ''x'')))"
    using d(2) by (cases res) (auto simp: factory_defs)
  show ?thesis
    using r d(1) shape operations_do_not_mutate
      [OF r, of False "\<lambda>f x. x" "\<lambda>f x y. x" std_to_string "''x''"]
    by (auto simp: factory_defs)
qed

text \<open>The same call, computed: three objects are appended, the result is the last.\<close>

lemma deriv_at_example:
  "deriv_at
     [VariableObj ''x'', UnaryObj Fncs_Sin (Some 0),
      BinaryObj std_plus (Some 1) (Some 1) :: real object]
     (Some 1) ''x''
   = Some ([VariableObj ''x'', UnaryObj Fncs_Sin (Some 0),
            BinaryObj std_plus (Some 1) (Some 1),
            NumericObj 1, UnaryObj Fncs_Cos (Some 0),
            BinaryObj std_multiplies (Some 3) (Some 4)], Inr (Some 5))"
  by (simp add: deriv_at.simps make_shared_def)


end
